theory Spec2Isabelle
  imports Complex_Main
begin

section \<open>The simulation core of App.js\<close>

text \<open>
  The game of \<^verbatim>\<open>src/App.js\<close> is a React function component. Its simulation state is
  six \<^verbatim>\<open>useState\<close> cells and five \<^verbatim>\<open>useRef\<close> cells; the handlers
  (\<^verbatim>\<open>triggerJump\<close>, \<^verbatim>\<open>moveLeft\<close>, \<^verbatim>\<open>moveRight\<close>, \<^verbatim>\<open>resetGame\<close>) and the
  frame callback \<^verbatim>\<open>update\<close> queue state updates, React renders, and the
  \<^verbatim>\<open>useEffect\<close> hooks then copy state into the refs.

  JavaScript numbers are modelled as \<open>real\<close> (positions, durations) and \<open>int\<close> (lane
  indices, scores). The spec's names map to the source as follows: lane is
  \<^verbatim>\<open>playerLane\<close>, jumpRemaining is \<^verbatim>\<open>jumpClock\<close>, bestScore is \<^verbatim>\<open>highScore\<close>,
  spawnAccumulator is \<^verbatim>\<open>spawnTimerRef.current\<close>, alive is the negation of
  \<^verbatim>\<open>isGameOver\<close>, tick is \<^verbatim>\<open>update\<close>, requestJump is \<^verbatim>\<open>triggerJump\<close>,
  requestLaneChange is \<^verbatim>\<open>moveLeft\<close>/\<^verbatim>\<open>moveRight\<close> and reset is \<^verbatim>\<open>resetGame\<close>.
\<close>

subsection \<open>Constants (App.js lines 22-27)\<close>

definition LANES :: int where "LANES = 3"
definition BASE_SPEED :: real where "BASE_SPEED = 32 / 10"
definition OBSTACLE_SIZE :: real where "OBSTACLE_SIZE = 70"
definition SNOWMAN_SIZE :: real where "SNOWMAN_SIZE = 90"
definition JUMP_DURATION :: real where "JUMP_DURATION = 900"
definition JUMP_HEIGHT :: real where "JUMP_HEIGHT = 120"

text \<open>
  The spec names further constants that the source writes as literals inside
  \<^verbatim>\<open>update\<close>: the spawn interval \<^verbatim>\<open>Math.max(250, 900 - scoreRef.current * 25)\<close>, the
  spawn position \<^verbatim>\<open>-OBSTACLE_SIZE - 20\<close>, the speed coefficient \<^verbatim>\<open>0.08\<close> and the
  reference frame \<^verbatim>\<open>1000 / 60\<close>. They are named here after the spec and used by the
  model of \<^verbatim>\<open>update\<close> exactly where the source has the literal.
\<close>

definition MIN_SPAWN_INTERVAL :: real where "MIN_SPAWN_INTERVAL = 250"
definition BASE_SPAWN_INTERVAL :: real where "BASE_SPAWN_INTERVAL = 900"
definition SPAWN_SCORE_COEFFICIENT :: real where "SPAWN_SCORE_COEFFICIENT = 25"
definition SPAWN_MARGIN :: real where "SPAWN_MARGIN = 20"
definition SPEED_SCORE_COEFFICIENT :: real where "SPEED_SCORE_COEFFICIENT = 8 / 100"
definition FRAME_REFERENCE_MS :: real where "FRAME_REFERENCE_MS = 1000 / 60"

subsection \<open>Data\<close>

text \<open>
  An obstacle object \<^verbatim>\<open>{id, lane, x, y}\<close>. The field \<^verbatim>\<open>x\<close> is
  \<^verbatim>\<open>lanePositions[laneIndex]\<close>, which is \<^verbatim>\<open>undefined\<close> for an index outside the array:
  \<open>None\<close> stands for \<^verbatim>\<open>undefined\<close>.
\<close>

record obstacle =
  obs_id :: string
  obs_lane :: int
  obs_x :: "real option"
  obs_y :: real

text \<open>The window size delivered by \<^verbatim>\<open>useWindowDimensions\<close>.\<close>

record window =
  width :: real
  height :: real

text \<open>
  The state cells (lines 51-56) and the ref cells (lines 58-62). The animation value
  \<^verbatim>\<open>runCycle\<close> belongs to the presentation and is left out.
\<close>

record game =
  playerLane :: int
  jumpClock :: real
  obstacles :: "obstacle list"
  score :: int
  highScore :: int
  isGameOver :: bool
  playerLaneRef :: int
  jumpOffsetRef :: real
  jumpingRef :: bool
  scoreRef :: int
  spawnTimerRef :: real

text \<open>
  What one run of \<^verbatim>\<open>update\<close> reads from outside: the elapsed time
  \<^verbatim>\<open>now - lastTime\<close>, the value of \<^verbatim>\<open>Math.random()\<close> that \<^verbatim>\<open>randomLane\<close> draws, and the
  string \<^verbatim>\<open>`${Date.now()}-${Math.random()}`\<close> that becomes the id of a spawned obstacle.
\<close>

record frame =
  delta :: real
  rnd :: real
  freshId :: string

subsection \<open>Derived geometry (lines 32-49)\<close>

definition computeJumpOffset :: "real \<Rightarrow> real" where
  "computeJumpOffset remaining =
     (if remaining \<le> 0 then 0
      else sin (pi * (1 - remaining / JUMP_DURATION)) * JUMP_HEIGHT)"

definition randomLane :: "real \<Rightarrow> int" where
  "randomLane r = \<lfloor>r * real_of_int LANES\<rfloor>"

definition fieldHeight :: "window \<Rightarrow> real" where
  "fieldHeight w = min (height w * (7 / 10)) 560"

definition laneWidth :: "window \<Rightarrow> real" where
  "laneWidth w = (width w - 40) / real_of_int LANES"

definition lanePositions :: "window \<Rightarrow> int \<Rightarrow> real option" where
  "lanePositions w idx =
     (if 0 \<le> idx \<and> idx < LANES
      then Some (20 + real_of_int idx * laneWidth w + laneWidth w / 2)
      else None)"

definition playerBaseline :: "window \<Rightarrow> real" where
  "playerBaseline w = fieldHeight w - 30"

subsection \<open>Rendering: the effects that copy state into refs (lines 65-77)\<close>

text \<open>
  After a render React runs an effect only when one of its dependencies changed. The
  three effects depend on \<^verbatim>\<open>playerLane\<close>, \<^verbatim>\<open>jumpClock\<close> and \<^verbatim>\<open>score\<close>. \<open>old\<close> is the
  state of the previous render, \<open>new\<close> the state being committed.
\<close>

definition runEffects :: "game \<Rightarrow> game \<Rightarrow> game" where
  "runEffects old new =
     new\<lparr>playerLaneRef :=
           (if playerLane new \<noteq> playerLane old then playerLane new else playerLaneRef new),
         jumpOffsetRef :=
           (if jumpClock new \<noteq> jumpClock old then computeJumpOffset (jumpClock new)
            else jumpOffsetRef new),
         jumpingRef :=
           (if jumpClock new \<noteq> jumpClock old then jumpClock new > 0 else jumpingRef new),
         scoreRef := (if score new \<noteq> score old then score new else scoreRef new)\<rparr>"

subsection \<open>Input handlers (lines 104-128)\<close>

definition triggerJump :: "game \<Rightarrow> game" where
  "triggerJump s =
     runEffects s (s\<lparr>jumpClock := (if jumpClock s > 0 then jumpClock s else JUMP_DURATION)\<rparr>)"

definition moveLeft :: "game \<Rightarrow> game" where
  "moveLeft s = runEffects s (s\<lparr>playerLane := max 0 (playerLane s - 1)\<rparr>)"

definition moveRight :: "game \<Rightarrow> game" where
  "moveRight s = runEffects s (s\<lparr>playerLane := min (LANES - 1) (playerLane s + 1)\<rparr>)"

text \<open>
  \<^verbatim>\<open>handleCollision\<close> runs inside the \<^verbatim>\<open>setObstacles\<close> updater, before the effects of
  the render: \<^verbatim>\<open>scoreRef.current\<close> still holds the score of the previous render.
\<close>

definition handleCollision :: "game \<Rightarrow> game" where
  "handleCollision s = s\<lparr>isGameOver := True, highScore := max (highScore s) (scoreRef s)\<rparr>"

definition resetGame :: "game \<Rightarrow> game" where
  "resetGame s =
     runEffects s (s\<lparr>playerLane := 1, jumpClock := 0, obstacles := [], score := 0,
                      spawnTimerRef := 0, isGameOver := False\<rparr>)"

subsection \<open>The frame callback (lines 138-199)\<close>

definition overlappingX :: "window \<Rightarrow> game \<Rightarrow> obstacle \<Rightarrow> bool" where
  "overlappingX w s obs =
     (case lanePositions w (playerLaneRef s) of
        None \<Rightarrow> False
      | Some playerX \<Rightarrow>
          (case obs_x obs of
             None \<Rightarrow> False
           | Some ox \<Rightarrow> \<bar>playerX - ox\<bar> < laneWidth w * (35 / 100)))"

definition overlappingY :: "window \<Rightarrow> game \<Rightarrow> real \<Rightarrow> bool" where
  "overlappingY w s newY =
     (let playerBottom = playerBaseline w - jumpOffsetRef s;
          playerTop = playerBottom - SNOWMAN_SIZE;
          obsBottom = newY + OBSTACLE_SIZE
      in obsBottom > playerTop + 10 \<and> newY < playerBottom - 10)"

definition verticalSpeed :: "game \<Rightarrow> real \<Rightarrow> real" where
  "verticalSpeed s d =
     (BASE_SPEED + real_of_int (scoreRef s) * SPEED_SCORE_COEFFICIENT) * (d / FRAME_REFERENCE_MS)"

text \<open>The three local variables of the \<^verbatim>\<open>setObstacles\<close> updater.\<close>

record sweep =
  collided :: bool
  cleared :: int
  updated :: "obstacle list"

text \<open>The body of \<^verbatim>\<open>prev.forEach\<close> for one obstacle (lines 155-174).\<close>

definition visit :: "window \<Rightarrow> game \<Rightarrow> real \<Rightarrow> obstacle \<Rightarrow> sweep \<Rightarrow> sweep" where
  "visit w s d obs acc =
     (let newY = obs_y obs + verticalSpeed s d in
      if newY > fieldHeight w + OBSTACLE_SIZE then acc\<lparr>cleared := cleared acc + 1\<rparr>
      else if \<not> jumpingRef s \<and> obs_lane obs = playerLaneRef s
              \<and> overlappingX w s obs \<and> overlappingY w s newY
      then acc\<lparr>collided := True\<rparr>
      else acc\<lparr>updated := updated acc @ [obs\<lparr>obs_y := newY\<rparr>]\<rparr>)"

primrec forEach :: "window \<Rightarrow> game \<Rightarrow> real \<Rightarrow> obstacle list \<Rightarrow> sweep \<Rightarrow> sweep" where
  "forEach w s d [] acc = acc"
| "forEach w s d (obs # rest) acc = forEach w s d rest (visit w s d obs acc)"

definition spawned :: "window \<Rightarrow> frame \<Rightarrow> obstacle" where
  "spawned w fr =
     \<lparr>obs_id = freshId fr,
      obs_lane = randomLane (rnd fr),
      obs_x = lanePositions w (randomLane (rnd fr)),
      obs_y = - OBSTACLE_SIZE - SPAWN_MARGIN\<rparr>"

text \<open>
  One run of \<^verbatim>\<open>update\<close> up to the render: the \<^verbatim>\<open>setJumpClock\<close> updater, then the
  \<^verbatim>\<open>setObstacles\<close> updater with its calls of \<^verbatim>\<open>setScore\<close> and \<^verbatim>\<open>handleCollision\<close> and
  its writes to \<^verbatim>\<open>spawnTimerRef\<close>. All refs read here are those of the state \<open>s\<close> of
  the previous render.
\<close>

definition update :: "window \<Rightarrow> frame \<Rightarrow> game \<Rightarrow> game" where
  "update w fr s =
     (let res = forEach w s (delta fr) (obstacles s)
                  \<lparr>collided = False, cleared = 0, updated = []\<rparr>;
          s1 = s\<lparr>jumpClock := max 0 (jumpClock s - delta fr),
                 score := (if cleared res \<noteq> 0 then score s + cleared res else score s)\<rparr>
      in if collided res then handleCollision (s1\<lparr>obstacles := []\<rparr>)
         else
           (let timer = spawnTimerRef s + delta fr;
                spawnInterval =
                  max MIN_SPAWN_INTERVAL
                      (BASE_SPAWN_INTERVAL - real_of_int (scoreRef s) * SPAWN_SCORE_COEFFICIENT)
            in if timer \<ge> spawnInterval
               then s1\<lparr>obstacles := updated res @ [spawned w fr], spawnTimerRef := 0\<rparr>
               else s1\<lparr>obstacles := updated res, spawnTimerRef := timer\<rparr>))"

text \<open>
  The frame loop is installed by an effect that returns at once when \<^verbatim>\<open>isGameOver\<close>
  holds (lines 130-133), so no frame is processed in a game-over state. Otherwise a
  frame is \<^verbatim>\<open>update\<close>, the render and its effects.
\<close>

definition tick :: "window \<Rightarrow> frame \<Rightarrow> game \<Rightarrow> game" where
  "tick w fr s = (if isGameOver s then s else runEffects s (update w fr s))"

subsection \<open>Runs\<close>

text \<open>The state after the first render (the initial values of lines 51-62).\<close>

definition initial :: game where
  "initial =
     \<lparr>playerLane = 1, jumpClock = 0, obstacles = [], score = 0, highScore = 0,
      isGameOver = False, playerLaneRef = 1, jumpOffsetRef = 0, jumpingRef = False,
      scoreRef = 0, spawnTimerRef = 0\<rparr>"

datatype event = Update frame | TriggerJump | MoveLeft | MoveRight | ResetGame

fun step :: "window \<Rightarrow> game \<Rightarrow> event \<Rightarrow> game" where
  "step w s (Update fr) = tick w fr s"
| "step w s TriggerJump = triggerJump s"
| "step w s MoveLeft = moveLeft s"
| "step w s MoveRight = moveRight s"
| "step w s ResetGame = resetGame s"

definition run :: "window \<Rightarrow> game \<Rightarrow> event list \<Rightarrow> game" where
  "run w s evs = foldl (step w) s evs"

text \<open>All states a run passes through after its events, in order.\<close>

fun trajectory :: "window \<Rightarrow> game \<Rightarrow> event list \<Rightarrow> game list" where
  "trajectory w s [] = []"
| "trajectory w s (ev # evs) = step w s ev # trajectory w (step w s ev) evs"

text \<open>
  The refs agree with the state cells they mirror. This holds after every render whose
  effects have run, hence in every state a run reaches from \<open>initial\<close>.
\<close>

definition synced :: "game \<Rightarrow> bool" where
  "synced s \<longleftrightarrow>
     playerLaneRef s = playerLane s \<and> scoreRef s = score s
     \<and> jumpingRef s = (jumpClock s > 0) \<and> jumpOffsetRef s = computeJumpOffset (jumpClock s)"

subsection \<open>Predicates read off the branches of the frame callback\<close>

text \<open>
  The first branch of the \<^verbatim>\<open>forEach\<close> body: the obstacle has left the field
  (\<^verbatim>\<open>newY > fieldHeight + OBSTACLE_SIZE\<close>).
\<close>

definition passed :: "window \<Rightarrow> game \<Rightarrow> real \<Rightarrow> obstacle \<Rightarrow> bool" where
  "passed w s d obs \<longleftrightarrow> obs_y obs + verticalSpeed s d > fieldHeight w + OBSTACLE_SIZE"

text \<open>
  The second branch: the obstacle has not left the field and the collision test of lines
  162-170 succeeds. This is the collision zone of the code.
\<close>

definition hits :: "window \<Rightarrow> game \<Rightarrow> real \<Rightarrow> obstacle \<Rightarrow> bool" where
  "hits w s d obs \<longleftrightarrow>
     \<not> passed w s d obs \<and> \<not> jumpingRef s \<and> obs_lane obs = playerLaneRef s
     \<and> overlappingX w s obs \<and> overlappingY w s (obs_y obs + verticalSpeed s d)"

text \<open>The third branch keeps the obstacle, moved down by the speed of the frame.\<close>

definition moved :: "game \<Rightarrow> real \<Rightarrow> obstacle \<Rightarrow> obstacle" where
  "moved s d obs = obs\<lparr>obs_y := obs_y obs + verticalSpeed s d\<rparr>"

definition survivors :: "window \<Rightarrow> game \<Rightarrow> real \<Rightarrow> obstacle list" where
  "survivors w s d =
     map (moved s d) (filter (\<lambda>obs. \<not> passed w s d obs \<and> \<not> hits w s d obs) (obstacles s))"

text \<open>
  The collision test as C3 of the spec words it: same lane, vertical bands overlap, and
  grounded, where grounded is read from the jump clock after the frame has lowered it
  (\<open>max 0 (jumpClock - delta)\<close>). A grounded player stands on the baseline, so the band
  of the player is the one with jump offset 0. This is the spec's reading, to be
  compared with \<open>hits\<close>, which is the code's.
\<close>

definition overlapsStanding :: "window \<Rightarrow> real \<Rightarrow> bool" where
  "overlapsStanding w newY \<longleftrightarrow>
     newY + OBSTACLE_SIZE > playerBaseline w - SNOWMAN_SIZE + 10 \<and> newY < playerBaseline w - 10"

definition inZoneAfterDecrement :: "window \<Rightarrow> game \<Rightarrow> real \<Rightarrow> obstacle \<Rightarrow> bool" where
  "inZoneAfterDecrement w s d obs \<longleftrightarrow>
     \<not> passed w s d obs \<and> obs_lane obs = playerLane s \<and> max 0 (jumpClock s - d) = 0
     \<and> overlapsStanding w (obs_y obs + verticalSpeed s d)"

definition laneInRange :: "game \<Rightarrow> bool" where
  "laneInRange s \<longleftrightarrow> 0 \<le> playerLane s \<and> playerLane s < LANES"

definition jumpInRange :: "game \<Rightarrow> bool" where
  "jumpInRange s \<longleftrightarrow> 0 \<le> jumpClock s \<and> jumpClock s \<le> JUMP_DURATION"

text \<open>The precondition of the spec's tick: the elapsed time is not negative.\<close>

fun nonnegDelta :: "event \<Rightarrow> bool" where
  "nonnegDelta (Update fr) = (0 \<le> delta fr)"
| "nonnegDelta ev = True"

subsection \<open>Concrete scenarios\<close>

text \<open>
  A window of 400 by 800 points: the field is 560 high and a lane is 120 wide. A slow
  frame lasts 900 ms, in which an obstacle of a game with score 0 travels 172.8 points
  and the spawn timer always fires.
\<close>

definition phone :: window where
  "phone = \<lparr>width = 400, height = 800\<rparr>"

definition slowFrame :: "real \<Rightarrow> string \<Rightarrow> frame" where
  "slowFrame r i = \<lparr>delta = 900, rnd = r, freshId = i\<rparr>"

text \<open>
  Six slow frames. The obstacle of the first frame (lane 0) leaves the field in the
  sixth, in which the obstacle of the third frame (lane 1) reaches the player.
\<close>

definition clearThenCrash :: "event list" where
  "clearThenCrash =
     [Update (slowFrame 0 ''a''), Update (slowFrame 0 ''b''), Update (slowFrame (1 / 2) ''c''),
      Update (slowFrame 0 ''d''), Update (slowFrame 0 ''e''), Update (slowFrame 0 ''f'')]"

text \<open>The state after the first five of these frames.\<close>

definition beforeCrash :: game where
  "beforeCrash =
     \<lparr>playerLane = 1, jumpClock = 0,
      obstacles =
        [\<lparr>obs_id = ''a'', obs_lane = 0, obs_x = Some 80, obs_y = 3006 / 5\<rparr>,
         \<lparr>obs_id = ''b'', obs_lane = 0, obs_x = Some 80, obs_y = 2142 / 5\<rparr>,
         \<lparr>obs_id = ''c'', obs_lane = 1, obs_x = Some 200, obs_y = 1278 / 5\<rparr>,
         \<lparr>obs_id = ''d'', obs_lane = 0, obs_x = Some 80, obs_y = 414 / 5\<rparr>,
         \<lparr>obs_id = ''e'', obs_lane = 0, obs_x = Some 80, obs_y = - 90\<rparr>],
      score = 0, highScore = 0, isGameOver = False, playerLaneRef = 1, jumpOffsetRef = 0,
      jumpingRef = False, scoreRef = 0, spawnTimerRef = 0\<rparr>"

text \<open>
  Three slow frames, the first spawning in lane 1, then a jump. In the next slow frame
  the jump ends while that obstacle is level with the player.
\<close>

definition jumpLate :: "event list" where
  "jumpLate =
     [Update (slowFrame (1 / 2) ''a''), Update (slowFrame 0 ''b''), Update (slowFrame 0 ''c''),
      TriggerJump]"

definition landing :: game where
  "landing =
     \<lparr>playerLane = 1, jumpClock = 900,
      obstacles =
        [\<lparr>obs_id = ''a'', obs_lane = 1, obs_x = Some 200, obs_y = 1278 / 5\<rparr>,
         \<lparr>obs_id = ''b'', obs_lane = 0, obs_x = Some 80, obs_y = 414 / 5\<rparr>,
         \<lparr>obs_id = ''c'', obs_lane = 0, obs_x = Some 80, obs_y = - 90\<rparr>],
      score = 0, highScore = 0, isGameOver = False, playerLaneRef = 1, jumpOffsetRef = 0,
      jumpingRef = True, scoreRef = 0, spawnTimerRef = 0\<rparr>"

text \<open>Four slow frames without a jump: the obstacle of the first frame hits the player.\<close>

definition crash :: "event list" where
  "crash =
     [Update (slowFrame (1 / 2) ''a''), Update (slowFrame 0 ''b''), Update (slowFrame 0 ''c''),
      Update (slowFrame 0 ''d'')]"

definition frozen :: game where
  "frozen = initial\<lparr>isGameOver := True\<rparr>"

text \<open>
  Two frames of 400 ms and 500 ms: together exactly the base spawn interval.
\<close>

definition twoFrames :: "frame list" where
  "twoFrames =
     [\<lparr>delta = 400, rnd = 0, freshId = ''x''\<rparr>, \<lparr>delta = 500, rnd = 1 / 2, freshId = ''y''\<rparr>]"

text \<open>
  Five slow frames that all spawn in lane 0, beside the player, and the state they
  reach. In a following frame of 880 ms the obstacle of the first frame leaves the field
  and nothing hits the player.
\<close>

definition clearOnly :: "event list" where
  "clearOnly =
     [Update (slowFrame 0 ''a''), Update (slowFrame 0 ''b''), Update (slowFrame 0 ''c''),
      Update (slowFrame 0 ''d''), Update (slowFrame 0 ''e'')]"

definition beforeClear :: game where
  "beforeClear =
     \<lparr>playerLane = 1, jumpClock = 0,
      obstacles =
        [\<lparr>obs_id = ''a'', obs_lane = 0, obs_x = Some 80, obs_y = 3006 / 5\<rparr>,
         \<lparr>obs_id = ''b'', obs_lane = 0, obs_x = Some 80, obs_y = 2142 / 5\<rparr>,
         \<lparr>obs_id = ''c'', obs_lane = 0, obs_x = Some 80, obs_y = 1278 / 5\<rparr>,
         \<lparr>obs_id = ''d'', obs_lane = 0, obs_x = Some 80, obs_y = 414 / 5\<rparr>,
         \<lparr>obs_id = ''e'', obs_lane = 0, obs_x = Some 80, obs_y = - 90\<rparr>],
      score = 0, highScore = 0, isGameOver = False, playerLaneRef = 1, jumpOffsetRef = 0,
      jumpingRef = False, scoreRef = 0, spawnTimerRef = 0\<rparr>"

definition shortFrame :: frame where
  "shortFrame = \<lparr>delta = 880, rnd = 0, freshId = ''f''\<rparr>"

text \<open>
  The spawn interval as C8 of the spec words it. The sentence is step 7 of tick, which
  follows step 6 (apply the pending score delta from passed obstacles): its score is
  the score of the frame's start plus the obstacles that left the field in this frame.
  This is the spec's reading, to be compared with the interval of \<open>update\<close>, which is
  computed from \<^verbatim>\<open>scoreRef.current\<close>.
\<close>

definition spawnIntervalAfterScoring :: "window \<Rightarrow> frame \<Rightarrow> game \<Rightarrow> real" where
  "spawnIntervalAfterScoring w fr s =
     max MIN_SPAWN_INTERVAL
       (BASE_SPAWN_INTERVAL
        - real_of_int (score s + int (length (filter (passed w s (delta fr)) (obstacles s))))
          * SPAWN_SCORE_COEFFICIENT)"

subsection \<open>Two runs with the same calls\<close>

text \<open>
  Two frames agree in what C10 holds fixed when they have the same elapsed time and
  draw the same lane. The id of a spawned obstacle comes from the clock and from a
  second call of \<^verbatim>\<open>Math.random\<close>, and is not part of that.
\<close>

definition sameDraw :: "frame \<Rightarrow> frame \<Rightarrow> bool" where
  "sameDraw f g \<longleftrightarrow> delta f = delta g \<and> randomLane (rnd f) = randomLane (rnd g)"

fun sameCall :: "event \<Rightarrow> event \<Rightarrow> bool" where
  "sameCall (Update f) (Update g) = sameDraw f g"
| "sameCall TriggerJump TriggerJump = True"
| "sameCall MoveLeft MoveLeft = True"
| "sameCall MoveRight MoveRight = True"
| "sameCall ResetGame ResetGame = True"
| "sameCall e1 e2 = False"

text \<open>An obstacle without its id.\<close>

definition shape :: "obstacle \<Rightarrow> int \<times> real option \<times> real" where
  "shape obs = (obs_lane obs, obs_x obs, obs_y obs)"

text \<open>
  Two states that agree in every cell and every ref, and whose obstacle lists agree in
  length, order, lanes and positions.
\<close>

definition sameButIds :: "game \<Rightarrow> game \<Rightarrow> bool" where
  "sameButIds s t \<longleftrightarrow>
     playerLane s = playerLane t \<and> jumpClock s = jumpClock t \<and> score s = score t
     \<and> highScore s = highScore t \<and> isGameOver s = isGameOver t
     \<and> playerLaneRef s = playerLaneRef t \<and> jumpOffsetRef s = jumpOffsetRef t
     \<and> jumpingRef s = jumpingRef t \<and> scoreRef s = scoreRef t
     \<and> spawnTimerRef s = spawnTimerRef t
     \<and> map shape (obstacles s) = map shape (obstacles t)"

section \<open>Properties\<close>

subsection \<open>Unfolding and general facts\<close>

lemmas const_defs = LANES_def BASE_SPEED_def OBSTACLE_SIZE_def SNOWMAN_SIZE_def JUMP_DURATION_def
  JUMP_HEIGHT_def MIN_SPAWN_INTERVAL_def BASE_SPAWN_INTERVAL_def SPAWN_SCORE_COEFFICIENT_def
  SPAWN_MARGIN_def SPEED_SCORE_COEFFICIENT_def FRAME_REFERENCE_MS_def

lemmas geometry_defs = computeJumpOffset_def randomLane_def fieldHeight_def laneWidth_def
  lanePositions_def playerBaseline_def

lemmas engine_defs = runEffects_def triggerJump_def moveLeft_def moveRight_def handleCollision_def
  resetGame_def overlappingX_def overlappingY_def verticalSpeed_def visit_def spawned_def
  update_def tick_def

lemmas scenario_defs = phone_def slowFrame_def initial_def run_def

lemma runEffects_same [simp]: "runEffects s s = s"
  by (simp add: runEffects_def)

lemma runEffects_fields [simp]:
  "playerLane (runEffects old new) = playerLane new"
  "jumpClock (runEffects old new) = jumpClock new"
  "obstacles (runEffects old new) = obstacles new"
  "score (runEffects old new) = score new"
  "highScore (runEffects old new) = highScore new"
  "isGameOver (runEffects old new) = isGameOver new"
  "spawnTimerRef (runEffects old new) = spawnTimerRef new"
  by (simp_all add: runEffects_def)

lemma runEffects_synced:
  assumes "synced old"
    and "playerLaneRef new = playerLaneRef old" and "scoreRef new = scoreRef old"
    and "jumpingRef new = jumpingRef old" and "jumpOffsetRef new = jumpOffsetRef old"
  shows "synced (runEffects old new)"
  using assms by (auto simp: synced_def runEffects_def)

lemma update_keeps [simp]:
  "playerLaneRef (update w fr s) = playerLaneRef s"
  "scoreRef (update w fr s) = scoreRef s"
  "jumpingRef (update w fr s) = jumpingRef s"
  "jumpOffsetRef (update w fr s) = jumpOffsetRef s"
  "playerLane (update w fr s) = playerLane s"
  "jumpClock (update w fr s) = max 0 (jumpClock s - delta fr)"
  by (simp_all add: update_def handleCollision_def Let_def)

lemma synced_initial: "synced initial"
  by (simp add: synced_def initial_def computeJumpOffset_def)

lemma synced_step: "synced s \<Longrightarrow> synced (step w s ev)"
  by (cases ev)
     (simp_all add: tick_def triggerJump_def moveLeft_def moveRight_def resetGame_def
        runEffects_synced)

lemma synced_run: "synced s \<Longrightarrow> synced (run w s evs)"
  unfolding run_def by (induction evs arbitrary: s) (simp_all add: synced_step)

lemma synced_reachable: "synced (run w initial evs)"
  using synced_initial by (rule synced_run)

text \<open>The scenarios are runs of the program from its initial state.\<close>

lemma beforeCrash_reached: "run phone initial (take 5 clearThenCrash) = beforeCrash"
  by (simp add: clearThenCrash_def beforeCrash_def scenario_defs const_defs geometry_defs
      engine_defs Let_def)

lemma landing_reached: "run phone initial jumpLate = landing"
  by (simp add: jumpLate_def landing_def scenario_defs const_defs geometry_defs
      engine_defs Let_def)

lemma frozen_reached: "run phone initial crash = frozen"
  by (simp add: crash_def frozen_def scenario_defs const_defs geometry_defs
      engine_defs Let_def)

lemma beforeClear_reached: "run phone initial clearOnly = beforeClear"
  by (simp add: clearOnly_def beforeClear_def scenario_defs const_defs geometry_defs
      engine_defs Let_def)

lemma playerLane_update_same: "playerLane s = k \<Longrightarrow> s\<lparr>playerLane := k\<rparr> = s"
  by auto

lemma laneInRange_step: "laneInRange s \<Longrightarrow> laneInRange (step w s ev)"
  by (cases ev)
     (auto simp: laneInRange_def tick_def triggerJump_def moveLeft_def moveRight_def
        resetGame_def LANES_def)

lemma laneInRange_run: "laneInRange s \<Longrightarrow> laneInRange (run w s evs)"
  unfolding run_def by (induction evs arbitrary: s) (simp_all add: laneInRange_step)

lemma jumpInRange_step:
  "jumpInRange s \<Longrightarrow> nonnegDelta ev \<Longrightarrow> jumpInRange (step w s ev)"
  by (cases ev)
     (auto simp: jumpInRange_def tick_def triggerJump_def moveLeft_def moveRight_def
        resetGame_def JUMP_DURATION_def)

lemma jumpInRange_run:
  "jumpInRange s \<Longrightarrow> list_all nonnegDelta evs \<Longrightarrow> jumpInRange (run w s evs)"
  unfolding run_def by (induction evs arbitrary: s) (simp_all add: jumpInRange_step)

subsection \<open>Input while the game is over\<close>

text \<open>
  C4, as the spec states it: in a state with \<open>alive == false\<close>, requestLaneChange and
  requestJump leave the whole game state unchanged. The handlers of the source have no
  test of \<^verbatim>\<open>isGameOver\<close>, and the claim fails in the game-over state \<open>frozen\<close> that the
  run \<open>crash\<close> reaches: each of the three handlers changes that state.
\<close>

theorem gameOver_inputs_counterexample:
  "isGameOver frozen \<and> moveLeft frozen \<noteq> frozen \<and> moveRight frozen \<noteq> frozen
   \<and> triggerJump frozen \<noteq> frozen"
  by (simp add: frozen_def initial_def moveLeft_def moveRight_def triggerJump_def
      runEffects_def LANES_def JUMP_DURATION_def)

text \<open>
  C4, amended: in a state with \<open>alive == false\<close>, requestLaneChange and requestJump act as
  they do in any other state: the lane moves by one, clamped to the lanes, and a jump
  clock that is not running is set to \<open>JUMP_DURATION\<close>. Each handler changes nothing but
  its own cell: obstacles, score, bestScore, spawnAccumulator and alive stay as they are,
  and no error is signalled (the handlers are total functions).
\<close>

theorem gameOver_inputs_still_applied:
  assumes "isGameOver s"
  shows "playerLane (moveLeft s) = max 0 (playerLane s - 1)
   \<and> playerLane (moveRight s) = min (LANES - 1) (playerLane s + 1)
   \<and> jumpClock (triggerJump s) = (if 0 < jumpClock s then jumpClock s else JUMP_DURATION)
   \<and> jumpClock (moveLeft s) = jumpClock s \<and> jumpClock (moveRight s) = jumpClock s
   \<and> playerLane (triggerJump s) = playerLane s
   \<and> obstacles (moveLeft s) = obstacles s \<and> obstacles (moveRight s) = obstacles s
   \<and> obstacles (triggerJump s) = obstacles s
   \<and> score (moveLeft s) = score s \<and> score (moveRight s) = score s
   \<and> score (triggerJump s) = score s
   \<and> highScore (moveLeft s) = highScore s \<and> highScore (moveRight s) = highScore s
   \<and> highScore (triggerJump s) = highScore s
   \<and> spawnTimerRef (moveLeft s) = spawnTimerRef s \<and> spawnTimerRef (moveRight s) = spawnTimerRef s
   \<and> spawnTimerRef (triggerJump s) = spawnTimerRef s
   \<and> isGameOver (moveLeft s) \<and> isGameOver (moveRight s) \<and> isGameOver (triggerJump s)"
  using assms by (simp add: moveLeft_def moveRight_def triggerJump_def)

text \<open>The amended C4 at the game-over state \<open>frozen\<close>.\<close>

theorem gameOver_inputs_still_applied_witness:
  "isGameOver frozen \<and> playerLane frozen = 1 \<and> playerLane (moveLeft frozen) = 0
   \<and> playerLane (moveRight frozen) = 2 \<and> jumpClock frozen = 0
   \<and> jumpClock (triggerJump frozen) = 900 \<and> isGameOver (triggerJump frozen)"
  using gameOver_inputs_still_applied [of frozen]
  by (simp add: frozen_def initial_def LANES_def JUMP_DURATION_def)

subsection \<open>Lane changes\<close>

text \<open>
  C5: in a state with \<open>0 \<le> lane < LANE_COUNT\<close>, requestLaneChange moves the lane by exactly
  one in the requested direction, clamped to \<open>[0, LANE_COUNT - 1]\<close>; at the bound the call
  changes nothing at all. With three lanes and the player in lane 1, a move to the left
  gives lane 0 and a second one leaves lane 0.
\<close>

theorem requestLaneChange_clamped:
  assumes "0 \<le> playerLane s" and "playerLane s < LANES"
  shows "playerLane (moveLeft s) = max 0 (min (LANES - 1) (playerLane s - 1))
   \<and> playerLane (moveRight s) = max 0 (min (LANES - 1) (playerLane s + 1))
   \<and> (0 < playerLane s \<longrightarrow> playerLane (moveLeft s) = playerLane s - 1)
   \<and> (playerLane s < LANES - 1 \<longrightarrow> playerLane (moveRight s) = playerLane s + 1)
   \<and> (playerLane s = 0 \<longrightarrow> moveLeft s = s)
   \<and> (playerLane s = LANES - 1 \<longrightarrow> moveRight s = s)
   \<and> (LANES = 3 \<and> playerLane s = 1 \<longrightarrow>
        playerLane (moveLeft s) = 0 \<and> playerLane (moveLeft (moveLeft s)) = 0)"
  using assms by (simp add: moveLeft_def moveRight_def LANES_def playerLane_update_same)

text \<open>C5 at the initial state, whose lane is 1: the scenario of the spec.\<close>

theorem requestLaneChange_clamped_witness:
  "0 \<le> playerLane initial \<and> playerLane initial < LANES \<and> LANES = 3 \<and> playerLane initial = 1
   \<and> playerLane (moveLeft initial) = 0 \<and> playerLane (moveLeft (moveLeft initial)) = 0
   \<and> playerLane (moveRight initial) = 2"
  using requestLaneChange_clamped [of initial]
  by (simp add: initial_def LANES_def)

text \<open>
  C6: \<open>0 \<le> lane < LANE_COUNT\<close> holds in the initial state, every operation (a frame, a lane
  change, a jump, a reset) preserves it, and so it holds in every state that a sequence
  of operations reaches from the initial state.
\<close>

theorem lane_always_in_range:
  "laneInRange initial
   \<and> (laneInRange s \<longrightarrow> laneInRange (step w s ev))
   \<and> laneInRange (run w initial evs)"
proof -
  have init: "laneInRange initial"
    by (simp add: laneInRange_def initial_def LANES_def)
  show ?thesis
    using init laneInRange_step [of s w ev] laneInRange_run [OF init, of w evs] by simp
qed

text \<open>C6 on three moves to the right from the initial state: the lane stops at 2.\<close>

theorem lane_always_in_range_witness:
  "laneInRange initial \<and> laneInRange (step phone initial MoveRight)
   \<and> laneInRange (run phone initial [MoveRight, MoveRight, MoveRight])
   \<and> playerLane (run phone initial [MoveRight, MoveRight, MoveRight]) = 2"
  using lane_always_in_range [of initial phone MoveRight "[MoveRight, MoveRight, MoveRight]"]
  by (simp add: run_def moveRight_def initial_def LANES_def)

subsection \<open>The jump clock\<close>

text \<open>
  C7: \<open>0 \<le> jumpRemaining \<le> JUMP_DURATION\<close> holds in every state reached from the initial
  state by operations whose frames have a non-negative elapsed time (the precondition
  of tick). A frame lowers the clock by the elapsed time and floors it at 0; requestJump
  sets it to \<open>JUMP_DURATION\<close> when it is not running, and while it is running (airborne)
  requestJump changes nothing.
\<close>

theorem jumpClock_always_in_range:
  "(list_all nonnegDelta evs \<longrightarrow> jumpInRange (run w initial evs))
   \<and> (\<not> isGameOver s \<longrightarrow> jumpClock (tick w fr s) = max 0 (jumpClock s - delta fr))
   \<and> (jumpClock s \<le> 0 \<longrightarrow> jumpClock (triggerJump s) = JUMP_DURATION)
   \<and> (0 < jumpClock s \<longrightarrow> triggerJump s = s)"
proof -
  have "jumpInRange initial"
    by (simp add: jumpInRange_def initial_def JUMP_DURATION_def)
  then have "list_all nonnegDelta evs \<longrightarrow> jumpInRange (run w initial evs)"
    by (simp add: jumpInRange_run)
  moreover have "\<not> isGameOver s \<longrightarrow> jumpClock (tick w fr s) = max 0 (jumpClock s - delta fr)"
    by (simp add: tick_def)
  moreover have "jumpClock s \<le> 0 \<longrightarrow> jumpClock (triggerJump s) = JUMP_DURATION"
    by (simp add: triggerJump_def)
  moreover have "0 < jumpClock s \<longrightarrow> triggerJump s = s"
    by (simp add: triggerJump_def)
  ultimately show ?thesis by simp
qed

text \<open>
  C7 on the run \<open>jumpLate\<close>, which ends in the state \<open>landing\<close> with a running clock of
  900 ms: a second jump changes nothing, and a frame of 900 ms brings the clock to 0.
\<close>

theorem jumpClock_always_in_range_witness:
  "list_all nonnegDelta jumpLate \<and> jumpInRange (run phone initial jumpLate)
   \<and> \<not> isGameOver landing \<and> jumpClock (tick phone (slowFrame 0 ''d'') landing) = 0
   \<and> 0 < jumpClock landing \<and> triggerJump landing = landing"
  using jumpClock_always_in_range [of jumpLate phone landing "slowFrame 0 ''d''"]
  by (simp add: jumpLate_def landing_def slowFrame_def)

subsection \<open>Reset\<close>

text \<open>
  C9: in every state, reset sets the lane to the middle lane (\<open>LANE_COUNT / 2\<close> in integer
  division), jumpRemaining to 0, the obstacles to the empty list, the score to 0, the
  spawnAccumulator to 0 and alive to true, and leaves bestScore as it is; a second reset
  right after the first changes nothing.
\<close>

theorem resetGame_effect:
  "playerLane (resetGame s) = LANES div 2 \<and> jumpClock (resetGame s) = 0
   \<and> obstacles (resetGame s) = [] \<and> score (resetGame s) = 0
   \<and> spawnTimerRef (resetGame s) = 0 \<and> \<not> isGameOver (resetGame s)
   \<and> highScore (resetGame s) = highScore s
   \<and> resetGame (resetGame s) = resetGame s"
  by (simp add: resetGame_def runEffects_def LANES_def)

text \<open>C9 at the states \<open>beforeCrash\<close> (five obstacles) and \<open>frozen\<close> (game over).\<close>

theorem resetGame_effect_witness:
  "playerLane (resetGame beforeCrash) = 1 \<and> obstacles (resetGame beforeCrash) = []
   \<and> highScore (resetGame frozen) = 0 \<and> \<not> isGameOver (resetGame frozen)
   \<and> resetGame (resetGame beforeCrash) = resetGame beforeCrash"
  using resetGame_effect [of beforeCrash] resetGame_effect [of frozen]
  by (simp add: LANES_def frozen_def initial_def)

lemma visit_cases:
  "visit w s d obs acc =
     (if passed w s d obs then acc\<lparr>cleared := cleared acc + 1\<rparr>
      else if hits w s d obs then acc\<lparr>collided := True\<rparr>
      else acc\<lparr>updated := updated acc @ [moved s d obs]\<rparr>)"
  by (simp add: visit_def passed_def hits_def moved_def Let_def)

lemma forEach_collided:
  "collided (forEach w s d xs acc) \<longleftrightarrow> collided acc \<or> (\<exists>obs\<in>set xs. hits w s d obs)"
  by (induction xs arbitrary: acc) (auto simp: visit_cases hits_def)

lemma forEach_cleared:
  "cleared (forEach w s d xs acc) = cleared acc + int (length (filter (passed w s d) xs))"
  by (induction xs arbitrary: acc) (simp_all add: visit_cases)

lemma forEach_updated:
  "updated (forEach w s d xs acc) =
     updated acc
     @ map (moved s d) (filter (\<lambda>obs. \<not> passed w s d obs \<and> \<not> hits w s d obs) xs)"
  by (induction xs arbitrary: acc) (simp_all add: visit_cases)

lemma update_collision:
  assumes "\<exists>obs\<in>set (obstacles s). hits w s (delta fr) obs"
  shows "update w fr s =
     s\<lparr>jumpClock := max 0 (jumpClock s - delta fr),
       score := score s + int (length (filter (passed w s (delta fr)) (obstacles s))),
       obstacles := [], isGameOver := True, highScore := max (highScore s) (scoreRef s)\<rparr>"
  using assms
  by (simp add: update_def Let_def forEach_collided forEach_cleared handleCollision_def)

lemma update_no_collision:
  assumes "\<not> (\<exists>obs\<in>set (obstacles s). hits w s (delta fr) obs)"
  shows "update w fr s =
     (if max MIN_SPAWN_INTERVAL
           (BASE_SPAWN_INTERVAL - real_of_int (scoreRef s) * SPAWN_SCORE_COEFFICIENT)
         \<le> spawnTimerRef s + delta fr
      then s\<lparr>jumpClock := max 0 (jumpClock s - delta fr),
             score := score s + int (length (filter (passed w s (delta fr)) (obstacles s))),
             obstacles := survivors w s (delta fr) @ [spawned w fr], spawnTimerRef := 0\<rparr>
      else s\<lparr>jumpClock := max 0 (jumpClock s - delta fr),
             score := score s + int (length (filter (passed w s (delta fr)) (obstacles s))),
             obstacles := survivors w s (delta fr),
             spawnTimerRef := spawnTimerRef s + delta fr\<rparr>)"
  using assms
  by (simp add: update_def Let_def forEach_collided forEach_cleared forEach_updated
      survivors_def)

lemma synced_grounded_overlap:
  assumes "synced s" and "\<not> jumpingRef s"
  shows "overlappingY w s newY = overlapsStanding w newY"
  using assms
  by (simp add: synced_def overlappingY_def overlapsStanding_def computeJumpOffset_def Let_def)

subsection \<open>The frame in which the player is hit\<close>

text \<open>
  C2: in every frame of a running game in which some obstacle is in the collision zone,
  alive becomes false, the obstacle list becomes empty and no obstacle is spawned (the
  spawn timer is not even advanced), the score grows by exactly the number of obstacles
  that left the field in this frame, and an obstacle in the collision zone is never one
  of those: it adds nothing to the score.
\<close>

theorem collision_tick:
  assumes "\<not> isGameOver s" and "\<exists>obs\<in>set (obstacles s). hits w s (delta fr) obs"
  shows "isGameOver (tick w fr s) \<and> obstacles (tick w fr s) = []
   \<and> spawnTimerRef (tick w fr s) = spawnTimerRef s
   \<and> score (tick w fr s)
       = score s + int (length (filter (passed w s (delta fr)) (obstacles s)))
   \<and> \<not> (\<exists>obs. hits w s (delta fr) obs \<and> passed w s (delta fr) obs)"
proof -
  have "\<not> (\<exists>obs. hits w s (delta fr) obs \<and> passed w s (delta fr) obs)"
    by (auto simp: hits_def)
  then show ?thesis
    using assms by (simp add: tick_def update_collision)
qed

text \<open>
  C2 at the state \<open>beforeCrash\<close>: in the next slow frame obstacle c hits the player and
  obstacle a leaves the field. The spawn timer would have fired, yet the list is empty,
  and the score is 1.
\<close>

theorem collision_tick_witness:
  "\<not> isGameOver beforeCrash
   \<and> hits phone beforeCrash 900 \<lparr>obs_id = ''c'', obs_lane = 1, obs_x = Some 200, obs_y = 1278 / 5\<rparr>
   \<and> passed phone beforeCrash 900 \<lparr>obs_id = ''a'', obs_lane = 0, obs_x = Some 80, obs_y = 3006 / 5\<rparr>
   \<and> 900 \<le> spawnTimerRef beforeCrash + delta (slowFrame 0 ''f'')
   \<and> isGameOver (tick phone (slowFrame 0 ''f'') beforeCrash)
   \<and> obstacles (tick phone (slowFrame 0 ''f'') beforeCrash) = []
   \<and> spawnTimerRef (tick phone (slowFrame 0 ''f'') beforeCrash) = 0
   \<and> score beforeCrash = 0
   \<and> score (tick phone (slowFrame 0 ''f'') beforeCrash) = 1"
proof -
  have h: "hits phone beforeCrash 900
      \<lparr>obs_id = ''c'', obs_lane = 1, obs_x = Some 200, obs_y = 1278 / 5\<rparr>"
    by (simp add: hits_def passed_def beforeCrash_def phone_def const_defs geometry_defs
        overlappingX_def overlappingY_def verticalSpeed_def Let_def)
  have p: "passed phone beforeCrash 900
      \<lparr>obs_id = ''a'', obs_lane = 0, obs_x = Some 80, obs_y = 3006 / 5\<rparr>"
    by (simp add: passed_def beforeCrash_def phone_def const_defs geometry_defs
        verticalSpeed_def)
  have alive: "\<not> isGameOver beforeCrash"
    by (simp add: beforeCrash_def)
  have ex: "\<exists>obs\<in>set (obstacles beforeCrash). hits phone beforeCrash (delta (slowFrame 0 ''f'')) obs"
    using h by (simp add: beforeCrash_def slowFrame_def)
  have cnt: "length (filter (passed phone beforeCrash 900) (obstacles beforeCrash)) = 1"
    by (simp add: passed_def beforeCrash_def phone_def const_defs geometry_defs
        verticalSpeed_def)
  show ?thesis
    using collision_tick [OF alive ex] h p cnt
    by (simp add: slowFrame_def beforeCrash_def)
qed

subsection \<open>Which jump clock the collision test reads\<close>

text \<open>
  C3, as the spec states it: the collision test of a frame reads grounded from the jump
  clock after the decrement of that frame. In the state \<open>landing\<close>, which the run
  \<open>jumpLate\<close> reaches from the initial state, the clock is at 900 ms and obstacle a is
  in the lane of the player; the slow frame brings the clock to 0 and
  the obstacle level with the standing player, so the obstacle is in the collision zone
  of the spec's reading. The game is not over after the frame: the test read
  \<^verbatim>\<open>jumpingRef.current\<close>, which the effect of the previous render had set from the
  clock before the decrement.
\<close>

theorem stale_jump_counterexample:
  "\<not> isGameOver landing
   \<and> \<lparr>obs_id = ''a'', obs_lane = 1, obs_x = Some 200, obs_y = 1278 / 5\<rparr> \<in> set (obstacles landing)
   \<and> inZoneAfterDecrement phone landing (delta (slowFrame 0 ''d''))
        \<lparr>obs_id = ''a'', obs_lane = 1, obs_x = Some 200, obs_y = 1278 / 5\<rparr>
   \<and> overlappingX phone landing \<lparr>obs_id = ''a'', obs_lane = 1, obs_x = Some 200, obs_y = 1278 / 5\<rparr>
   \<and> 0 < jumpClock landing
   \<and> jumpClock (tick phone (slowFrame 0 ''d'') landing) = 0
   \<and> \<not> isGameOver (tick phone (slowFrame 0 ''d'') landing)"
  by (simp add: landing_def slowFrame_def phone_def inZoneAfterDecrement_def overlapsStanding_def
      passed_def const_defs geometry_defs engine_defs Let_def)

text \<open>
  C3, amended: within one frame the jump clock is lowered by the elapsed time and floored
  at 0, and the collision test of that frame reads grounded from the clock as it was
  before the decrement: the game is over after the frame exactly if some obstacle that
  has not left the field is in the lane of the player and level with the standing
  player while the clock before the frame was not running. A frame that brings the clock
  from a positive value to 0 still treats the player as airborne.
\<close>

theorem collision_test_uses_previous_clock:
  assumes "synced s" and "\<not> isGameOver s"
  shows "jumpClock (tick w fr s) = max 0 (jumpClock s - delta fr)
   \<and> (isGameOver (tick w fr s) \<longleftrightarrow>
        (\<exists>obs\<in>set (obstacles s).
           \<not> passed w s (delta fr) obs \<and> \<not> 0 < jumpClock s \<and> obs_lane obs = playerLane s
           \<and> overlappingX w s obs
           \<and> overlapsStanding w (obs_y obs + verticalSpeed s (delta fr))))
   \<and> (0 < jumpClock s \<longrightarrow> \<not> isGameOver (tick w fr s))"
proof -
  have zone: "hits w s (delta fr) obs \<longleftrightarrow>
      \<not> passed w s (delta fr) obs \<and> \<not> 0 < jumpClock s \<and> obs_lane obs = playerLane s
      \<and> overlappingX w s obs \<and> overlapsStanding w (obs_y obs + verticalSpeed s (delta fr))"
    for obs
    using assms(1) synced_grounded_overlap [OF assms(1)]
    by (auto simp: hits_def synced_def)
  have over: "isGameOver (tick w fr s) \<longleftrightarrow> (\<exists>obs\<in>set (obstacles s). hits w s (delta fr) obs)"
    using assms(2)
    by (cases "\<exists>obs\<in>set (obstacles s). hits w s (delta fr) obs")
       (simp_all add: tick_def update_collision update_no_collision)
  show ?thesis
    using assms(2) over zone by (auto simp: tick_def)
qed

text \<open>The amended C3 at the state \<open>landing\<close>.\<close>

theorem collision_test_uses_previous_clock_witness:
  "synced landing \<and> \<not> isGameOver landing \<and> 0 < jumpClock landing
   \<and> jumpClock (tick phone (slowFrame 0 ''d'') landing) = 0
   \<and> \<not> isGameOver (tick phone (slowFrame 0 ''d'') landing)"
proof -
  have a: "synced landing"
    by (simp add: synced_def landing_def computeJumpOffset_def JUMP_DURATION_def)
  have b: "\<not> isGameOver landing"
    by (simp add: landing_def)
  show ?thesis
    using collision_test_uses_previous_clock [OF a b, of phone "slowFrame 0 ''d''"] a b
    by (simp add: landing_def slowFrame_def)
qed


subsection \<open>Spawning\<close>

lemma randomLane_range: "0 \<le> r \<Longrightarrow> r < 1 \<Longrightarrow> 0 \<le> randomLane r \<and> randomLane r < LANES"
  by (simp add: randomLane_def LANES_def floor_less_iff)

lemma randomLane_preimage:
  "randomLane r = k \<longleftrightarrow>
     real_of_int k / real_of_int LANES \<le> r \<and> r < (real_of_int k + 1) / real_of_int LANES"
  by (auto simp: randomLane_def LANES_def floor_eq_iff field_simps)

lemma tick_no_collision:
  assumes "\<not> isGameOver s" and "\<not> (\<exists>obs\<in>set (obstacles s). hits w s (delta fr) obs)"
  shows "obstacles (tick w fr s) =
       (if max MIN_SPAWN_INTERVAL
             (BASE_SPAWN_INTERVAL - real_of_int (scoreRef s) * SPAWN_SCORE_COEFFICIENT)
           \<le> spawnTimerRef s + delta fr
        then survivors w s (delta fr) @ [spawned w fr] else survivors w s (delta fr))"
    and "spawnTimerRef (tick w fr s) =
       (if max MIN_SPAWN_INTERVAL
             (BASE_SPAWN_INTERVAL - real_of_int (scoreRef s) * SPAWN_SCORE_COEFFICIENT)
           \<le> spawnTimerRef s + delta fr
        then 0 else spawnTimerRef s + delta fr)"
    and "score (tick w fr s) = score s + int (length (filter (passed w s (delta fr)) (obstacles s)))"
    and "\<not> isGameOver (tick w fr s)"
  using assms by (simp_all add: tick_def update_no_collision)

lemma tick_gameOver_iff:
  "\<not> isGameOver s \<Longrightarrow>
     isGameOver (tick w fr s) \<longleftrightarrow> (\<exists>obs\<in>set (obstacles s). hits w s (delta fr) obs)"
  by (cases "\<exists>obs\<in>set (obstacles s). hits w s (delta fr) obs")
     (simp_all add: tick_def update_collision update_no_collision)

lemma tick_score:
  "\<not> isGameOver s \<Longrightarrow>
     score (tick w fr s) = score s + int (length (filter (passed w s (delta fr)) (obstacles s)))"
  by (cases "\<exists>obs\<in>set (obstacles s). hits w s (delta fr) obs")
     (simp_all add: tick_def update_collision update_no_collision)

lemma run_Cons: "run w s (ev # evs) = run w (step w s ev) evs"
  by (simp add: run_def)

lemma run_Nil: "run w s [] = s"
  by (simp add: run_def)

lemma frames_gameOver: "isGameOver s \<Longrightarrow> run w s (map Update frs) = s"
  by (induction frs) (simp_all add: run_Nil run_Cons tick_def)

lemma tick_score_mono: "score s \<le> score (tick w fr s)"
  by (cases "isGameOver s") (simp_all add: tick_score, simp add: tick_def)

lemma frames_score_mono: "score s \<le> score (run w s (map Update frs))"
proof (induction frs arbitrary: s)
  case Nil
  show ?case by (simp add: run_Nil)
next
  case (Cons fr frs)
  have "score s \<le> score (tick w fr s)" by (rule tick_score_mono)
  also have "\<dots> \<le> score (run w (tick w fr s) (map Update frs))" by (rule Cons.IH)
  finally show ?case by (simp add: run_Cons)
qed

text \<open>One frame of a run that is alive and still has score 0 at its end.\<close>

lemma quiet_frame:
  assumes sy: "synced s" and sc: "score s = 0"
    and alive: "\<not> isGameOver (run w (tick w fr s) (map Update frs))"
    and zero: "score (run w (tick w fr s) (map Update frs)) = 0"
  shows "synced (tick w fr s)" and "score (tick w fr s) = 0" and "\<not> isGameOver (tick w fr s)"
    and "obstacles (tick w fr s) =
       (if BASE_SPAWN_INTERVAL \<le> spawnTimerRef s + delta fr
        then map (moved s (delta fr)) (obstacles s) @ [spawned w fr]
        else map (moved s (delta fr)) (obstacles s))"
    and "spawnTimerRef (tick w fr s) =
       (if BASE_SPAWN_INTERVAL \<le> spawnTimerRef s + delta fr then 0
        else spawnTimerRef s + delta fr)"
proof -
  show a': "\<not> isGameOver (tick w fr s)"
    using alive frames_gameOver [of "tick w fr s" w frs] by auto
  then have a: "\<not> isGameOver s"
    by (auto simp: tick_def)
  have nohit: "\<not> (\<exists>obs\<in>set (obstacles s). hits w s (delta fr) obs)"
    using a a' by (simp add: tick_gameOver_iff)
  have "score (tick w fr s) \<le> 0"
    using frames_score_mono [of "tick w fr s" w frs] zero by simp
  then have cnt: "length (filter (passed w s (delta fr)) (obstacles s)) = 0"
    and z: "score (tick w fr s) = 0"
    using sc tick_score [OF a, of w fr] by simp_all
  show "score (tick w fr s) = 0" by (rule z)
  show "synced (tick w fr s)"
    using synced_step [OF sy, of w "Update fr"] by simp
  have "filter (\<lambda>obs. \<not> passed w s (delta fr) obs \<and> \<not> hits w s (delta fr) obs) (obstacles s)
      = obstacles s"
    using nohit cnt by (auto simp: filter_id_conv filter_empty_conv)
  then have surv: "survivors w s (delta fr) = map (moved s (delta fr)) (obstacles s)"
    by (simp add: survivors_def)
  have ref: "scoreRef s = 0"
    using sy sc by (simp add: synced_def)
  have iv: "max MIN_SPAWN_INTERVAL
      (BASE_SPAWN_INTERVAL - real_of_int (scoreRef s) * SPAWN_SCORE_COEFFICIENT)
      = BASE_SPAWN_INTERVAL"
    by (simp add: ref MIN_SPAWN_INTERVAL_def BASE_SPAWN_INTERVAL_def)
  show "obstacles (tick w fr s) =
       (if BASE_SPAWN_INTERVAL \<le> spawnTimerRef s + delta fr
        then map (moved s (delta fr)) (obstacles s) @ [spawned w fr]
        else map (moved s (delta fr)) (obstacles s))"
    using tick_no_collision(1) [OF a nohit] by (simp only: iv surv)
  show "spawnTimerRef (tick w fr s) =
       (if BASE_SPAWN_INTERVAL \<le> spawnTimerRef s + delta fr then 0
        else spawnTimerRef s + delta fr)"
    using tick_no_collision(2) [OF a nohit] by (simp only: iv)
qed

lemma moved_id [simp]: "obs_id (moved s d obs) = obs_id obs"
  by (simp add: moved_def)

lemma positive_deltas_sum:
  "frs \<noteq> [] \<Longrightarrow> \<forall>fr\<in>set frs. 0 < delta fr \<Longrightarrow> 0 < sum_list (map delta frs)"
proof (induction frs)
  case Nil
  then show ?case by simp
next
  case (Cons fr frs)
  show ?case
  proof (cases "frs = []")
    case True
    then show ?thesis using Cons.prems by simp
  next
    case False
    then have "0 < sum_list (map delta frs)"
      using Cons by simp
    moreover have "0 < delta fr"
      using Cons.prems by simp
    ultimately show ?thesis by simp
  qed
qed

lemma accumulate_spawns_once:
  assumes "synced s" and "score s = 0" and "0 \<le> spawnTimerRef s"
    and "frs \<noteq> []" and "\<forall>fr\<in>set frs. 0 < delta fr"
    and "spawnTimerRef s + sum_list (map delta frs) = BASE_SPAWN_INTERVAL"
    and "\<not> isGameOver (run w s (map Update frs))"
    and "score (run w s (map Update frs)) = 0"
  shows "map obs_id (obstacles (run w s (map Update frs)))
           = map obs_id (obstacles s) @ [freshId (last frs)]
       \<and> last (obstacles (run w s (map Update frs))) = spawned w (last frs)
       \<and> spawnTimerRef (run w s (map Update frs)) = 0"
  using assms
proof (induction frs arbitrary: s)
  case Nil
  then show ?case by simp
next
  case (Cons fr frs)
  let ?s' = "tick w fr s"
  have alive: "\<not> isGameOver (run w ?s' (map Update frs))"
    and zero: "score (run w ?s' (map Update frs)) = 0"
    using Cons.prems(7,8) by (simp_all add: run_Cons)
  note q = quiet_frame [OF Cons.prems(1,2) alive zero]
  show ?case
  proof (cases "frs = []")
    case True
    then have "BASE_SPAWN_INTERVAL \<le> spawnTimerRef s + delta fr"
      using Cons.prems(6) by simp
    then show ?thesis
      using True q(4,5) by (simp add: run_Cons run_Nil comp_def spawned_def)
  next
    case False
    have pos: "\<forall>fr\<in>set frs. 0 < delta fr"
      using Cons.prems(5) by simp
    have "0 < sum_list (map delta frs)"
      using False pos by (rule positive_deltas_sum)
    then have less: "\<not> BASE_SPAWN_INTERVAL \<le> spawnTimerRef s + delta fr"
      using Cons.prems(6) by simp
    have t': "spawnTimerRef ?s' = spawnTimerRef s + delta fr"
      and o': "obstacles ?s' = map (moved s (delta fr)) (obstacles s)"
      using q(4,5) less by simp_all
    have "0 \<le> spawnTimerRef ?s'"
      using t' Cons.prems(3,5) by simp
    moreover have "spawnTimerRef ?s' + sum_list (map delta frs) = BASE_SPAWN_INTERVAL"
      using t' Cons.prems(6) by simp
    ultimately have
      "map obs_id (obstacles (run w ?s' (map Update frs)))
           = map obs_id (obstacles ?s') @ [freshId (last frs)]
       \<and> last (obstacles (run w ?s' (map Update frs))) = spawned w (last frs)
       \<and> spawnTimerRef (run w ?s' (map Update frs)) = 0"
      using Cons.IH [OF q(1,2) _ False pos _ alive zero] by simp
    then show ?thesis
      using False o' by (simp add: run_Cons comp_def)
  qed
qed


lemma accumulate_no_early_spawn:
  assumes "synced s" and "score s = 0" and "0 \<le> spawnTimerRef s"
    and "\<forall>fr\<in>set frs. 0 < delta fr"
    and "spawnTimerRef s + sum_list (map delta frs) = BASE_SPAWN_INTERVAL"
    and "\<not> isGameOver (run w s (map Update frs))"
    and "score (run w s (map Update frs)) = 0"
    and "n < length frs"
  shows "map obs_id (obstacles (run w s (map Update (take n frs)))) = map obs_id (obstacles s)"
  using assms
proof (induction frs arbitrary: s n)
  case Nil
  then show ?case by simp
next
  case (Cons fr frs)
  show ?case
  proof (cases n)
    case 0
    then show ?thesis by (simp add: run_Nil)
  next
    case (Suc m)
    let ?s' = "tick w fr s"
    have m: "m < length frs"
      using Cons.prems(8) Suc by simp
    then have ne: "frs \<noteq> []" by auto
    have alive: "\<not> isGameOver (run w ?s' (map Update frs))"
      and zero: "score (run w ?s' (map Update frs)) = 0"
      using Cons.prems(6,7) by (simp_all add: run_Cons)
    note q = quiet_frame [OF Cons.prems(1,2) alive zero]
    have pos: "\<forall>fr\<in>set frs. 0 < delta fr"
      using Cons.prems(4) by simp
    have "0 < sum_list (map delta frs)"
      using ne pos by (rule positive_deltas_sum)
    then have less: "\<not> BASE_SPAWN_INTERVAL \<le> spawnTimerRef s + delta fr"
      using Cons.prems(5) by simp
    have t': "spawnTimerRef ?s' = spawnTimerRef s + delta fr"
      and o': "obstacles ?s' = map (moved s (delta fr)) (obstacles s)"
      using q(4,5) less by simp_all
    have "0 \<le> spawnTimerRef ?s'"
      using t' Cons.prems(3,4) by simp
    moreover have "spawnTimerRef ?s' + sum_list (map delta frs) = BASE_SPAWN_INTERVAL"
      using t' Cons.prems(5) by simp
    ultimately have
      "map obs_id (obstacles (run w ?s' (map Update (take m frs)))) = map obs_id (obstacles ?s')"
      using Cons.IH [OF q(1,2) _ pos _ alive zero m] by simp
    then show ?thesis
      using Suc o' by (simp add: run_Cons comp_def)
  qed
qed

text \<open>
  C8, as the spec states it: in a frame without a collision the spawn interval is
  computed from the score after the obstacles that passed in this frame have been
  counted, and a spawn happens when the accumulator has reached that interval. In the
  state \<open>beforeClear\<close>, which the run \<open>clearOnly\<close> reaches from the initial state, the
  frame of 880 ms clears obstacle a without a collision: the score becomes 1, the
  interval of the spec's reading is 875 and the accumulator reaches 880, so the claim
  asks for a spawn. The code spawns nothing and keeps the accumulator at 880: it
  compared with the interval 900 of the score 0 that \<^verbatim>\<open>scoreRef.current\<close> still held.
\<close>

theorem spawn_interval_counterexample:
  "\<not> isGameOver beforeClear
   \<and> \<not> isGameOver (tick phone shortFrame beforeClear)
   \<and> score beforeClear = 0
   \<and> score (tick phone shortFrame beforeClear) = 1
   \<and> spawnIntervalAfterScoring phone shortFrame beforeClear = 875
   \<and> spawnIntervalAfterScoring phone shortFrame beforeClear
       \<le> spawnTimerRef beforeClear + delta shortFrame
   \<and> spawnTimerRef (tick phone shortFrame beforeClear) = 880
   \<and> map obs_id (obstacles (tick phone shortFrame beforeClear)) = [''b'', ''c'', ''d'', ''e'']"
  by (simp add: beforeClear_def shortFrame_def spawnIntervalAfterScoring_def passed_def
      phone_def const_defs geometry_defs engine_defs Let_def)

text \<open>
  C8, amended: in every frame of a running game without a collision the spawn
  accumulator grows by the elapsed time; the interval is \<open>max MIN_SPAWN_INTERVAL
  (BASE_SPAWN_INTERVAL - score * SPAWN_SCORE_COEFFICIENT)\<close> with the score the state has
  when the frame starts, before the obstacles that leave the field in this frame are
  counted (the frame itself raises the score by their number); when the accumulator has
  reached the interval it is reset to 0 and exactly one obstacle is appended to the
  obstacles that stay, otherwise none is. The new obstacle is at position
  \<open>- OBSTACLE_SIZE - SPAWN_MARGIN\<close> in the lane \<open>randomLane r\<close>, where \<open>r\<close> is the draw of
  \<^verbatim>\<open>Math.random\<close>: for \<open>0 \<le> r < 1\<close> the lane is in \<open>[0, LANE_COUNT)\<close>, and lane \<open>k\<close> is
  drawn exactly for \<open>r\<close> in \<open>[k / LANE_COUNT, (k + 1) / LANE_COUNT)\<close>, intervals of the
  same length, so a uniform draw gives a uniform lane. Scenario: from a state with
  score 0 and accumulator 0, frames with positive elapsed times that add up to exactly
  \<open>BASE_SPAWN_INTERVAL\<close>, in a run that stays alive with score 0 (no obstacle cleared),
  spawn exactly one obstacle: the last frame appends it, and before the last frame the
  obstacles are those of the start.
\<close>

theorem spawn_rule:
  "(synced s \<and> \<not> isGameOver s \<and> \<not> (\<exists>obs\<in>set (obstacles s). hits w s (delta fr) obs) \<longrightarrow>
      spawnTimerRef (tick w fr s) =
        (if max MIN_SPAWN_INTERVAL
              (BASE_SPAWN_INTERVAL - real_of_int (score s) * SPAWN_SCORE_COEFFICIENT)
            \<le> spawnTimerRef s + delta fr
         then 0 else spawnTimerRef s + delta fr)
      \<and> obstacles (tick w fr s) =
        (if max MIN_SPAWN_INTERVAL
              (BASE_SPAWN_INTERVAL - real_of_int (score s) * SPAWN_SCORE_COEFFICIENT)
            \<le> spawnTimerRef s + delta fr
         then survivors w s (delta fr) @ [spawned w fr] else survivors w s (delta fr)))
   \<and> (\<not> isGameOver s \<longrightarrow>
        score (tick w fr s)
          = score s + int (length (filter (passed w s (delta fr)) (obstacles s))))
   \<and> obs_lane (spawned w fr) = randomLane (rnd fr)
   \<and> obs_y (spawned w fr) = - OBSTACLE_SIZE - SPAWN_MARGIN
   \<and> (0 \<le> r \<and> r < 1 \<longrightarrow> 0 \<le> randomLane r \<and> randomLane r < LANES)
   \<and> (randomLane r = k \<longleftrightarrow>
        real_of_int k / real_of_int LANES \<le> r \<and> r < (real_of_int k + 1) / real_of_int LANES)
   \<and> (synced s0 \<and> score s0 = 0 \<and> spawnTimerRef s0 = 0 \<and> frs \<noteq> []
        \<and> (\<forall>f\<in>set frs. 0 < delta f) \<and> sum_list (map delta frs) = BASE_SPAWN_INTERVAL
        \<and> \<not> isGameOver (run w s0 (map Update frs)) \<and> score (run w s0 (map Update frs)) = 0 \<longrightarrow>
        map obs_id (obstacles (run w s0 (map Update frs)))
          = map obs_id (obstacles s0) @ [freshId (last frs)]
        \<and> last (obstacles (run w s0 (map Update frs))) = spawned w (last frs)
        \<and> spawnTimerRef (run w s0 (map Update frs)) = 0
        \<and> (\<forall>n<length frs.
             map obs_id (obstacles (run w s0 (map Update (take n frs))))
               = map obs_id (obstacles s0)))"
proof -
  have single: "synced s \<and> \<not> isGameOver s
      \<and> \<not> (\<exists>obs\<in>set (obstacles s). hits w s (delta fr) obs) \<longrightarrow>
      spawnTimerRef (tick w fr s) =
        (if max MIN_SPAWN_INTERVAL
              (BASE_SPAWN_INTERVAL - real_of_int (score s) * SPAWN_SCORE_COEFFICIENT)
            \<le> spawnTimerRef s + delta fr
         then 0 else spawnTimerRef s + delta fr)
      \<and> obstacles (tick w fr s) =
        (if max MIN_SPAWN_INTERVAL
              (BASE_SPAWN_INTERVAL - real_of_int (score s) * SPAWN_SCORE_COEFFICIENT)
            \<le> spawnTimerRef s + delta fr
         then survivors w s (delta fr) @ [spawned w fr] else survivors w s (delta fr))"
  proof (intro impI, elim conjE)
    assume sy: "synced s" and a: "\<not> isGameOver s"
      and n: "\<not> (\<exists>obs\<in>set (obstacles s). hits w s (delta fr) obs)"
    have ref: "scoreRef s = score s"
      using sy by (simp add: synced_def)
    show "spawnTimerRef (tick w fr s) =
        (if max MIN_SPAWN_INTERVAL
              (BASE_SPAWN_INTERVAL - real_of_int (score s) * SPAWN_SCORE_COEFFICIENT)
            \<le> spawnTimerRef s + delta fr
         then 0 else spawnTimerRef s + delta fr)
      \<and> obstacles (tick w fr s) =
        (if max MIN_SPAWN_INTERVAL
              (BASE_SPAWN_INTERVAL - real_of_int (score s) * SPAWN_SCORE_COEFFICIENT)
            \<le> spawnTimerRef s + delta fr
         then survivors w s (delta fr) @ [spawned w fr] else survivors w s (delta fr))"
      using tick_no_collision(1,2) [OF a n] by (simp only: ref)
  qed
  have scored: "\<not> isGameOver s \<longrightarrow>
      score (tick w fr s)
        = score s + int (length (filter (passed w s (delta fr)) (obstacles s)))"
    by (simp add: tick_score)
  have new: "obs_lane (spawned w fr) = randomLane (rnd fr)
      \<and> obs_y (spawned w fr) = - OBSTACLE_SIZE - SPAWN_MARGIN"
    by (simp add: spawned_def)
  have range: "0 \<le> r \<and> r < 1 \<longrightarrow> 0 \<le> randomLane r \<and> randomLane r < LANES"
    using randomLane_range [of r] by simp
  have scenario: "synced s0 \<and> score s0 = 0 \<and> spawnTimerRef s0 = 0 \<and> frs \<noteq> []
        \<and> (\<forall>f\<in>set frs. 0 < delta f) \<and> sum_list (map delta frs) = BASE_SPAWN_INTERVAL
        \<and> \<not> isGameOver (run w s0 (map Update frs)) \<and> score (run w s0 (map Update frs)) = 0 \<longrightarrow>
        map obs_id (obstacles (run w s0 (map Update frs)))
          = map obs_id (obstacles s0) @ [freshId (last frs)]
        \<and> last (obstacles (run w s0 (map Update frs))) = spawned w (last frs)
        \<and> spawnTimerRef (run w s0 (map Update frs)) = 0
        \<and> (\<forall>n<length frs.
             map obs_id (obstacles (run w s0 (map Update (take n frs))))
               = map obs_id (obstacles s0))"
  proof (intro impI, elim conjE)
    assume h: "synced s0" "score s0 = 0" "spawnTimerRef s0 = 0" "frs \<noteq> []"
      "\<forall>f\<in>set frs. 0 < delta f" "sum_list (map delta frs) = BASE_SPAWN_INTERVAL"
      "\<not> isGameOver (run w s0 (map Update frs))" "score (run w s0 (map Update frs)) = 0"
    have t0: "0 \<le> spawnTimerRef s0"
      and total: "spawnTimerRef s0 + sum_list (map delta frs) = BASE_SPAWN_INTERVAL"
      using h(3,6) by simp_all
    have "\<forall>n<length frs.
        map obs_id (obstacles (run w s0 (map Update (take n frs)))) = map obs_id (obstacles s0)"
      using accumulate_no_early_spawn [OF h(1,2) t0 h(5) total h(7,8)] by blast
    then show "map obs_id (obstacles (run w s0 (map Update frs)))
          = map obs_id (obstacles s0) @ [freshId (last frs)]
        \<and> last (obstacles (run w s0 (map Update frs))) = spawned w (last frs)
        \<and> spawnTimerRef (run w s0 (map Update frs)) = 0
        \<and> (\<forall>n<length frs.
             map obs_id (obstacles (run w s0 (map Update (take n frs))))
               = map obs_id (obstacles s0))"
      using accumulate_spawns_once [OF h(1,2) t0 h(4,5) total h(7,8)] by blast
  qed
  show ?thesis
    using single scored new range randomLane_preimage [of r k] scenario by blast
qed

text \<open>
  The amended C8 at the initial state: one slow frame spawns in lane 1 at position -90,
  and the two frames of 400 ms and 500 ms spawn nothing in the first and one obstacle in
  the second. At the state \<open>beforeClear\<close> the frame of 880 ms raises the score to 1 and
  spawns nothing: the interval of the score 0 of its start is 900.
\<close>

theorem spawn_rule_witness:
  "synced initial \<and> \<not> isGameOver initial
   \<and> spawnTimerRef (tick phone (slowFrame (1 / 2) ''a'') initial) = 0
   \<and> obstacles (tick phone (slowFrame (1 / 2) ''a'') initial)
       = [\<lparr>obs_id = ''a'', obs_lane = 1, obs_x = Some 200, obs_y = - 90\<rparr>]
   \<and> score (tick phone (slowFrame (1 / 2) ''a'') initial) = 0
   \<and> randomLane (1 / 2) = 1
   \<and> sum_list (map delta twoFrames) = BASE_SPAWN_INTERVAL
   \<and> obstacles (run phone initial (map Update (take 1 twoFrames))) = []
   \<and> obstacles (run phone initial (map Update twoFrames))
       = [\<lparr>obs_id = ''y'', obs_lane = 1, obs_x = Some 200, obs_y = - 90\<rparr>]
   \<and> spawnTimerRef (run phone initial (map Update twoFrames)) = 0
   \<and> synced beforeClear \<and> \<not> isGameOver beforeClear
   \<and> score beforeClear = 0
   \<and> spawnTimerRef (tick phone shortFrame beforeClear) = 880
   \<and> score (tick phone shortFrame beforeClear) = 1"
  using spawn_rule [of initial phone "slowFrame (1 / 2) ''a''" "1 / 2" 1 initial twoFrames]
    spawn_rule [of beforeClear phone shortFrame "1 / 2" 1 initial twoFrames]
    synced_initial
  by (simp add: twoFrames_def beforeClear_def shortFrame_def synced_def hits_def passed_def
      scenario_defs const_defs geometry_defs engine_defs survivors_def Let_def)

subsection \<open>Two runs with the same calls, deltas and lanes\<close>

lemma branches_sameButIds:
  assumes "jumpingRef s = jumpingRef t" and "playerLaneRef s = playerLaneRef t"
    and "jumpOffsetRef s = jumpOffsetRef t" and "scoreRef s = scoreRef t"
    and "shape x = shape y"
  shows "passed w s d x = passed w t d y" and "hits w s d x = hits w t d y"
    and "shape (moved s d x) = shape (moved t d y)"
proof -
  have x: "obs_lane x = obs_lane y" "obs_x x = obs_x y" "obs_y x = obs_y y"
    using assms(5) by (simp_all add: shape_def)
  have v: "verticalSpeed s d = verticalSpeed t d"
    by (simp add: verticalSpeed_def assms(4))
  show p: "passed w s d x = passed w t d y"
    by (simp add: passed_def x v)
  have ox: "overlappingX w s x = overlappingX w t y"
    unfolding overlappingX_def x(2) assms(2) by (rule refl)
  have oy: "overlappingY w s newY = overlappingY w t newY" for newY
    by (simp add: overlappingY_def assms(3))
  show "hits w s d x = hits w t d y"
    by (simp add: hits_def p ox oy x v assms(1,2))
  show "shape (moved s d x) = shape (moved t d y)"
    by (simp add: shape_def moved_def x v)
qed

lemma visit_sameButIds:
  assumes "jumpingRef s = jumpingRef t" and "playerLaneRef s = playerLaneRef t"
    and "jumpOffsetRef s = jumpOffsetRef t" and "scoreRef s = scoreRef t"
    and "shape x = shape y"
    and "collided a = collided b" and "cleared a = cleared b"
    and "map shape (updated a) = map shape (updated b)"
  shows "collided (visit w s d x a) = collided (visit w t d y b)
     \<and> cleared (visit w s d x a) = cleared (visit w t d y b)
     \<and> map shape (updated (visit w s d x a)) = map shape (updated (visit w t d y b))"
  using assms(6-8) branches_sameButIds [OF assms(1-5)]
  by (simp add: visit_cases)

lemma forEach_sameButIds:
  assumes "jumpingRef s = jumpingRef t" and "playerLaneRef s = playerLaneRef t"
    and "jumpOffsetRef s = jumpOffsetRef t" and "scoreRef s = scoreRef t"
    and "map shape xs = map shape ys"
    and "collided a = collided b" and "cleared a = cleared b"
    and "map shape (updated a) = map shape (updated b)"
  shows "collided (forEach w s d xs a) = collided (forEach w t d ys b)
     \<and> cleared (forEach w s d xs a) = cleared (forEach w t d ys b)
     \<and> map shape (updated (forEach w s d xs a)) = map shape (updated (forEach w t d ys b))"
  using assms(5-8)
proof (induction xs arbitrary: ys a b)
  case Nil
  then show ?case by simp
next
  case (Cons x xs)
  from Cons.prems(1) obtain y ys' where ys: "ys = y # ys'"
    and xy: "shape x = shape y" and rest: "map shape xs = map shape ys'"
    by (cases ys) auto
  note v = visit_sameButIds [OF assms(1-4) xy Cons.prems(2-4), of w d]
  show ?case
    using Cons.IH [OF rest, of "visit w s d x a" "visit w t d y b"] v
    by (simp add: ys)
qed

lemma update_sameButIds:
  assumes "sameButIds s t" and "sameDraw f g"
  shows "sameButIds (update w f s) (update w g t)"
proof -
  let ?a = "\<lparr>collided = False, cleared = 0, updated = []\<rparr>"
  have d: "delta g = delta f" and l: "randomLane (rnd g) = randomLane (rnd f)"
    using assms(2) by (simp_all add: sameDraw_def)
  have fe: "collided (forEach w s (delta f) (obstacles s) ?a)
        = collided (forEach w t (delta f) (obstacles t) ?a)
     \<and> cleared (forEach w s (delta f) (obstacles s) ?a)
        = cleared (forEach w t (delta f) (obstacles t) ?a)
     \<and> map shape (updated (forEach w s (delta f) (obstacles s) ?a))
        = map shape (updated (forEach w t (delta f) (obstacles t) ?a))"
    using assms(1) by (intro forEach_sameButIds) (simp_all add: sameButIds_def)
  have sp: "shape (spawned w f) = shape (spawned w g)"
    by (simp add: shape_def spawned_def l)
  show ?thesis
    using assms(1) fe sp
    by (simp add: sameButIds_def update_def handleCollision_def Let_def d)
qed

lemma runEffects_sameButIds:
  assumes "sameButIds s t" and "sameButIds s' t'"
  shows "sameButIds (runEffects s s') (runEffects t t')"
  using assms by (simp add: sameButIds_def runEffects_def)

lemma step_sameButIds:
  assumes "sameButIds s t" and "sameCall e1 e2"
  shows "sameButIds (step w s e1) (step w t e2)"
proof (cases e1)
  case (Update f)
  then obtain g where e2: "e2 = Update g" and fg: "sameDraw f g"
    using assms(2) by (cases e2) simp_all
  have go: "isGameOver s = isGameOver t"
    using assms(1) by (simp add: sameButIds_def)
  show ?thesis
    using assms(1) go runEffects_sameButIds [OF assms(1) update_sameButIds [OF assms(1) fg, of w]]
    by (simp add: Update e2 tick_def)
next
  case TriggerJump
  then have "e2 = TriggerJump" using assms(2) by (cases e2) simp_all
  then show ?thesis
    using assms(1) TriggerJump by (simp add: sameButIds_def triggerJump_def runEffects_def)
next
  case MoveLeft
  then have "e2 = MoveLeft" using assms(2) by (cases e2) simp_all
  then show ?thesis
    using assms(1) MoveLeft by (simp add: sameButIds_def moveLeft_def runEffects_def)
next
  case MoveRight
  then have "e2 = MoveRight" using assms(2) by (cases e2) simp_all
  then show ?thesis
    using assms(1) MoveRight by (simp add: sameButIds_def moveRight_def runEffects_def)
next
  case ResetGame
  then have "e2 = ResetGame" using assms(2) by (cases e2) simp_all
  then show ?thesis
    using assms(1) ResetGame by (simp add: sameButIds_def resetGame_def runEffects_def)
qed

lemma trajectory_sameButIds:
  assumes "list_all2 sameCall evs1 evs2" and "sameButIds s t"
  shows "list_all2 sameButIds (trajectory w s evs1) (trajectory w t evs2)"
  using assms
proof (induction evs1 evs2 arbitrary: s t rule: list_all2_induct)
  case Nil
  then show ?case by simp
next
  case (Cons e1 evs1 e2 evs2)
  have "sameButIds (step w s e1) (step w t e2)"
    using Cons.prems Cons.hyps(1) by (rule step_sameButIds)
  then show ?case
    using Cons.IH by simp
qed

text \<open>
  C10, as the spec states it: two instances that receive the same calls with the same
  elapsed times and the same random lanes pass through identical states, obstacles
  included. Two runs of one slow frame that draw the same lane differ in the obstacle
  they spawn: its id is built from the clock and a further random number, which the
  claim does not hold fixed.
\<close>

theorem determinism_ids_counterexample:
  "list_all2 sameCall [Update (slowFrame 0 ''a'')] [Update (slowFrame 0 ''b'')]
   \<and> trajectory phone initial [Update (slowFrame 0 ''a'')]
       \<noteq> trajectory phone initial [Update (slowFrame 0 ''b'')]
   \<and> obstacles (run phone initial [Update (slowFrame 0 ''a'')])
       = [\<lparr>obs_id = ''a'', obs_lane = 0, obs_x = Some 80, obs_y = - 90\<rparr>]
   \<and> obstacles (run phone initial [Update (slowFrame 0 ''b'')])
       = [\<lparr>obs_id = ''b'', obs_lane = 0, obs_x = Some 80, obs_y = - 90\<rparr>]"
  by (simp add: sameDraw_def scenario_defs const_defs geometry_defs engine_defs Let_def)

text \<open>
  C10, amended: two instances that receive the same calls with the same elapsed times
  and the same random lanes pass through states that are identical at every step in
  lane, jumpRemaining, score, bestScore, spawnAccumulator and alive (and in every ref),
  and whose obstacle lists are identical in length, order, lanes and positions; only
  the ids of the obstacles may differ.
\<close>

theorem determinism_up_to_ids:
  assumes "list_all2 sameCall evs1 evs2"
  shows "list_all2 sameButIds (trajectory w initial evs1) (trajectory w initial evs2)"
  using assms by (rule trajectory_sameButIds) (simp add: sameButIds_def)

text \<open>
  The amended C10 on two runs of a slow frame and a move to the left, whose frames draw
  lane 0 from different random numbers and carry different ids.
\<close>

theorem determinism_up_to_ids_witness:
  "list_all2 sameCall [Update (slowFrame 0 ''a''), MoveLeft] [Update (slowFrame (1 / 4) ''b''), MoveLeft]
   \<and> list_all2 sameButIds
        (trajectory phone initial [Update (slowFrame 0 ''a''), MoveLeft])
        (trajectory phone initial [Update (slowFrame (1 / 4) ''b''), MoveLeft])"
proof -
  have h: "list_all2 sameCall [Update (slowFrame 0 ''a''), MoveLeft]
      [Update (slowFrame (1 / 4) ''b''), MoveLeft]"
    by (simp add: sameDraw_def slowFrame_def randomLane_def LANES_def)
  show ?thesis
    using determinism_up_to_ids [OF h, of phone] h by simp
qed

subsection \<open>The best score at a game over\<close>

text \<open>
  What the code does at a game over: \<^verbatim>\<open>handleCollision\<close> takes the maximum with
  \<^verbatim>\<open>scoreRef.current\<close>, the score of the state before the frame, while the score itself
  also counts the obstacles that left the field in this frame.
\<close>

lemma gameOver_highScore:
  assumes "synced s" and "\<not> isGameOver s" and "isGameOver (tick w fr s)"
  shows "highScore (tick w fr s) = max (highScore s) (score s)"
    and "score (tick w fr s)
       = score s + int (length (filter (passed w s (delta fr)) (obstacles s)))"
proof -
  have hit: "\<exists>obs\<in>set (obstacles s). hits w s (delta fr) obs"
    using assms(2,3) by (simp add: tick_gameOver_iff)
  have ref: "scoreRef s = score s"
    using assms(1) by (simp add: synced_def)
  show "highScore (tick w fr s) = max (highScore s) (score s)"
    using assms(2) by (simp add: tick_def update_collision [OF hit] ref)
  show "score (tick w fr s)
       = score s + int (length (filter (passed w s (delta fr)) (obstacles s)))"
    using assms(2) by (rule tick_score)
qed

text \<open>
  C1 says that at every game over bestScore becomes the maximum of the previous bestScore
  and the score at that game over, the increments of the same frame included. The code
  run on the six slow frames of \<open>clearThenCrash\<close> from the initial state: in the sixth
  frame obstacle a leaves the field and obstacle c hits the player. The game is over
  with score 1, and bestScore is still 0.
\<close>

theorem highScore_misses_same_tick_score:
  "run phone initial (take 5 clearThenCrash) = beforeCrash
   \<and> \<not> isGameOver beforeCrash
   \<and> isGameOver (run phone initial clearThenCrash)
   \<and> score (run phone initial clearThenCrash) = 1
   \<and> highScore beforeCrash = 0
   \<and> highScore (run phone initial clearThenCrash) = 0"
  by (simp add: clearThenCrash_def beforeCrash_def scenario_defs const_defs geometry_defs
      engine_defs Let_def)


end
